theory Spec2Isabelle
  imports Complex_Main
begin

section \<open>The call-spacing input processor\<close>

text \<open>
  A shallow embedding of \<^verbatim>\<open>src/mastra/processors/example-input.processors.ts\<close>.

  A JavaScript \<^verbatim>\<open>number\<close> is modelled as a \<^typ>\<open>real\<close>: timestamps, delays and
  the random draw are finite numbers and the arithmetic is exact (no rounding, no
  \<^verbatim>\<open>NaN\<close>, no infinities). An optional property (\<^verbatim>\<open>delayMs?: number\<close>) is an
  \<^typ>\<open>real option\<close>, \<open>None\<close> standing for \<^verbatim>\<open>undefined\<close>.
\<close>

subsection \<open>Data\<close>

text \<open>The interface \<^verbatim>\<open>ExampleInputProcessorOptions\<close>: both properties are optional.\<close>

record ExampleInputProcessorOptions =
  opt_delayMs :: "real option"
  opt_jitterMs :: "real option"

text \<open>
  The fields of the class \<^verbatim>\<open>ExampleInputProcessor\<close>. The fields \<^verbatim>\<open>id\<close> and
  \<^verbatim>\<open>name\<close> carry a suffix, as \<open>id\<close> is a constant of HOL.
\<close>

record ExampleInputProcessor =
  id_field :: string
  name_field :: string
  delayMs :: real
  jitterMs :: real

text \<open>
  The module-level variable \<^verbatim>\<open>let nextAvailableTime = 0\<close>, shared by every instance.
  The record is extensible, so that whatever else a program keeps beside the cursor is
  the \<open>more\<close> part of the state.
\<close>

record module_state =
  nextAvailableTime :: real

definition initial_state :: module_state where
  "initial_state = \<lparr>nextAvailableTime = 0\<rparr>"

text \<open>
  The argument of \<^verbatim>\<open>processInput\<close>; the method destructures \<^verbatim>\<open>messages\<close> only,
  the other properties of \<^verbatim>\<open>ProcessInputArgs\<close> are the \<open>more\<close> part.
\<close>

record 'm ProcessInputArgs =
  messages :: "'m list"

text \<open>
  What one call reads from the runtime: the value of \<^verbatim>\<open>Date.now()\<close> and the value of
  \<^verbatim>\<open>Math.random()\<close> (called once, and only when \<^verbatim>\<open>jitterMs > 0\<close>).
\<close>

record environment =
  Date_now :: real
  Math_random :: real

text \<open>
  A call of a JavaScript function completes normally with a value, or abruptly with a
  thrown exception.
\<close>

datatype 'a completion = Normal 'a | Throw string

text \<open>
  The local constants of one call of \<^verbatim>\<open>processInput\<close>, the timer it awaits
  (\<open>sleep = Some ms\<close> when \<^verbatim>\<open>this.sleep(ms)\<close> is called, \<open>None\<close> when it is not) and
  the list the promise resolves to.
\<close>

record 'm invocation =
  now :: real
  effectiveDelay :: real
  myStartTime :: real
  waitTime :: real
  sleep :: "real option"
  returned :: "'m list"

subsection \<open>Operations\<close>

text \<open>
  \<^verbatim>\<open>constructor(options = {})\<close>: an omitted argument is the empty object, and
  \<^verbatim>\<open>??\<close> replaces an undefined property by its default. The body has no
  \<^verbatim>\<open>throw\<close>, so every completion is normal.
\<close>

definition nullish :: "'a option \<Rightarrow> 'a \<Rightarrow> 'a" where
  "nullish v d = (case v of None \<Rightarrow> d | Some x \<Rightarrow> x)"

definition constructor :: "ExampleInputProcessorOptions option \<Rightarrow> ExampleInputProcessor completion" where
  "constructor arg =
     (let options = (case arg of
                       None \<Rightarrow> \<lparr>opt_delayMs = None, opt_jitterMs = None\<rparr>
                     | Some given \<Rightarrow> given)
      in Normal \<lparr>id_field = ''example-input'',
                 name_field = ''ExampleInputProcessor'',
                 delayMs = nullish (opt_delayMs options) 500,
                 jitterMs = nullish (opt_jitterMs options) 1000\<rparr>)"

text \<open>\<^verbatim>\<open>getJitter\<close>; the second argument is the value \<^verbatim>\<open>Math.random()\<close> returns.\<close>

definition getJitter :: "ExampleInputProcessor \<Rightarrow> real \<Rightarrow> real" where
  "getJitter this random =
     (if jitterMs this \<le> 0 then 0
      else of_int \<lfloor>random * jitterMs this\<rfloor>)"

text \<open>
  \<^verbatim>\<open>processInput\<close>. Everything up to the \<^verbatim>\<open>await\<close> runs without interruption, so
  one call is one step on the module state; the wait itself is the \<open>sleep\<close> it asks for.
\<close>

definition processInput ::
  "ExampleInputProcessor \<Rightarrow> ('m, 'a) ProcessInputArgs_scheme \<Rightarrow> environment
     \<Rightarrow> 's module_state_scheme \<Rightarrow> 'm invocation \<times> 's module_state_scheme" where
  "processInput this args env st =
     (let now_v = Date_now env;
          effectiveDelay_v = delayMs this + getJitter this (Math_random env);
          myStartTime_v = max now_v (nextAvailableTime st);
          st' = st\<lparr>nextAvailableTime := myStartTime_v + effectiveDelay_v\<rparr>;
          waitTime_v = myStartTime_v - now_v
      in (\<lparr>now = now_v,
           effectiveDelay = effectiveDelay_v,
           myStartTime = myStartTime_v,
           waitTime = waitTime_v,
           sleep = (if waitTime_v > 0 then Some waitTime_v else None),
           returned = messages args\<rparr>,
          st'))"

text \<open>\<^verbatim>\<open>resetRateLimitTimestamp\<close>.\<close>

definition resetRateLimitTimestamp :: "'s module_state_scheme \<Rightarrow> 's module_state_scheme" where
  "resetRateLimitTimestamp st = st\<lparr>nextAvailableTime := 0\<rparr>"

text \<open>
  Several calls on one instance whose synchronous parts run one after the other, in the
  order of the list: each call starts from the state the call before it left.
\<close>

fun processInputs ::
  "ExampleInputProcessor \<Rightarrow> (('m, 'a) ProcessInputArgs_scheme \<times> environment) list
     \<Rightarrow> 's module_state_scheme \<Rightarrow> 'm invocation list \<times> 's module_state_scheme" where
  "processInputs this [] st = ([], st)"
| "processInputs this (call # calls) st =
     (let (inv, st') = processInput this (fst call) (snd call) st;
          (invs, st'') = processInputs this calls st'
      in (inv # invs, st''))"

subsection \<open>What a call does to the outside\<close>






subsection \<open>Concrete instances and call sequences\<close>

text \<open>
  Two instances and a short sequence of calls, used to run the theorems below; the second
  sequence has the times of the first and other draws of \<^verbatim>\<open>Math.random()\<close>.
\<close>

definition spaced_processor :: ExampleInputProcessor where
  "spaced_processor = \<lparr>id_field = ''example-input'', name_field = ''ExampleInputProcessor'',
                         delayMs = 2000, jitterMs = 0\<rparr>"

definition jittered_processor :: ExampleInputProcessor where
  "jittered_processor = \<lparr>id_field = ''example-input'', name_field = ''ExampleInputProcessor'',
                           delayMs = 500, jitterMs = 100\<rparr>"

definition two_calls :: "(string ProcessInputArgs \<times> environment) list" where
  "two_calls = [(\<lparr>messages = [''first'']\<rparr>, \<lparr>Date_now = 1000, Math_random = 1 / 2\<rparr>),
                (\<lparr>messages = [''second'']\<rparr>, \<lparr>Date_now = 1200, Math_random = 1 / 4\<rparr>)]"


section \<open>Properties\<close>

subsection \<open>The jitter and the locals of one call\<close>

lemma getJitter_nonneg: "0 \<le> random \<Longrightarrow> 0 \<le> getJitter this random"
  by (simp add: getJitter_def)

lemma getJitter_less:
  assumes "0 < jitterMs this" and "random < 1"
  shows "getJitter this random < jitterMs this"
proof -
  have "of_int \<lfloor>random * jitterMs this\<rfloor> \<le> random * jitterMs this"
    by (rule of_int_floor_le)
  also have "random * jitterMs this < 1 * jitterMs this"
    using assms by (intro mult_strict_right_mono) simp_all
  finally show ?thesis
    using assms by (simp add: getJitter_def)
qed


lemma processInput_cursor:
  "nextAvailableTime (snd (processInput this args env st)) =
     myStartTime (fst (processInput this args env st)) +
     effectiveDelay (fst (processInput this args env st))"
  by (simp add: processInput_def Let_def)

lemma processInput_myStartTime:
  "myStartTime (fst (processInput this args env st)) = max (Date_now env) (nextAvailableTime st)"
  by (simp add: processInput_def Let_def)

lemma processInput_effectiveDelay:
  "effectiveDelay (fst (processInput this args env st)) =
     delayMs this + getJitter this (Math_random env)"
  by (simp add: processInput_def Let_def)


lemma processInputs_Cons:
  "processInputs this (call # calls) st =
     (fst (processInput this (fst call) (snd call) st) #
        fst (processInputs this calls (snd (processInput this (fst call) (snd call) st))),
      snd (processInputs this calls (snd (processInput this (fst call) (snd call) st))))"
  by (simp add: Let_def split: prod.splits)

lemma processInputs_length: "length (fst (processInputs this calls st)) = length calls"
  by (induction calls arbitrary: st) (simp_all add: processInputs_Cons del: processInputs.simps(2))

lemma processInputs_head:
  "calls \<noteq> [] \<Longrightarrow>
     nextAvailableTime st \<le> myStartTime (fst (processInputs this calls st) ! 0)"
  by (cases calls) (simp_all add: processInputs_Cons processInput_myStartTime del: processInputs.simps(2))

lemma processInputs_consecutive:
  "Suc i < length calls \<Longrightarrow>
     myStartTime (fst (processInputs this calls st) ! i) +
       effectiveDelay (fst (processInputs this calls st) ! i)
     \<le> myStartTime (fst (processInputs this calls st) ! Suc i)"
proof (induction calls arbitrary: i st)
  case Nil
  then show ?case by simp
next
  case (Cons call calls)
  let ?st' = "snd (processInput this (fst call) (snd call) st)"
  show ?case
  proof (cases i)
    case 0
    with Cons.prems have "calls \<noteq> []" by auto
    then have "nextAvailableTime ?st' \<le> myStartTime (fst (processInputs this calls ?st') ! 0)"
      by (rule processInputs_head)
    with 0 show ?thesis
      by (simp add: processInputs_Cons processInput_cursor del: processInputs.simps(2))
  next
    case (Suc j)
    with Cons.prems have "Suc j < length calls" by simp
    from Cons.IH [OF this, of ?st'] Suc show ?thesis
      by (simp add: processInputs_Cons del: processInputs.simps(2))
  qed
qed

lemma processInputs_nth_effectiveDelay:
  "i < length calls \<Longrightarrow>
     effectiveDelay (fst (processInputs this calls st) ! i) =
       delayMs this + getJitter this (Math_random (snd (calls ! i)))"
proof (induction calls arbitrary: i st)
  case Nil
  then show ?case by simp
next
  case (Cons call calls)
  then show ?case
    by (cases i) (simp_all add: processInputs_Cons processInput_effectiveDelay del: processInputs.simps(2))
qed


subsection \<open>Spacing of consecutive calls\<close>

text \<open>
  Claim C1 (spacing invariant). Take any sequence of calls of \<^verbatim>\<open>processInput\<close> on one
  instance whose synchronous parts run in the order of the list, each with a draw of
  \<^verbatim>\<open>Math.random()\<close> in \<open>[0, 1)\<close>. For two consecutive calls \<open>i\<close> and \<open>i + 1\<close>, the start
  time of the second is at least the start time of the first plus the effective delay of
  the first, and so at least the start time of the first plus \<^verbatim>\<open>delayMs\<close>. Nothing is
  asked of the clock, of the cursor the sequence starts from, or of the sign of
  \<^verbatim>\<open>delayMs\<close>.
\<close>

theorem spacing_invariant:
  assumes draws: "list_all (\<lambda>call. 0 \<le> Math_random (snd call) \<and> Math_random (snd call) < 1) calls"
    and i: "Suc i < length calls"
  shows "length (fst (processInputs this calls st)) = length calls
       \<and> myStartTime (fst (processInputs this calls st) ! i) +
           effectiveDelay (fst (processInputs this calls st) ! i)
         \<le> myStartTime (fst (processInputs this calls st) ! Suc i)
       \<and> myStartTime (fst (processInputs this calls st) ! i) + delayMs this
         \<le> myStartTime (fst (processInputs this calls st) ! Suc i)"
proof -
  from i have "i < length calls" by simp
  with draws have "0 \<le> Math_random (snd (calls ! i))"
    by (simp add: list_all_length)
  then have "0 \<le> getJitter this (Math_random (snd (calls ! i)))"
    by (rule getJitter_nonneg)
  with \<open>i < length calls\<close>
  have "delayMs this \<le> effectiveDelay (fst (processInputs this calls st) ! i)"
    by (simp add: processInputs_nth_effectiveDelay)
  with processInputs_consecutive [OF i, of this st] show ?thesis
    by (simp add: processInputs_length)
qed

theorem spacing_invariant_witness:
  "list_all (\<lambda>call. 0 \<le> Math_random (snd call) \<and> Math_random (snd call) < 1) two_calls
   \<and> Suc 0 < length two_calls
   \<and> length (fst (processInputs jittered_processor two_calls initial_state)) = length two_calls
   \<and> myStartTime (fst (processInputs jittered_processor two_calls initial_state) ! 0) +
       effectiveDelay (fst (processInputs jittered_processor two_calls initial_state) ! 0)
     \<le> myStartTime (fst (processInputs jittered_processor two_calls initial_state) ! Suc 0)
   \<and> myStartTime (fst (processInputs jittered_processor two_calls initial_state) ! 0) +
       delayMs jittered_processor
     \<le> myStartTime (fst (processInputs jittered_processor two_calls initial_state) ! Suc 0)"
proof -
  have draws: "list_all (\<lambda>call. 0 \<le> Math_random (snd call) \<and> Math_random (snd call) < 1) two_calls"
    by (simp add: two_calls_def)
  have two: "Suc 0 < length two_calls"
    by (simp add: two_calls_def)
  from spacing_invariant [OF draws two, of jittered_processor initial_state] draws two
  show ?thesis by blast
qed

text \<open>
  Claim C2 (three simultaneous calls). With \<^verbatim>\<open>delayMs = 2000\<close> and
  \<^verbatim>\<open>jitterMs = 0\<close>, three calls A, B, C that all read the same time \<open>t0\<close>, made in
  this order on a cursor that is not after \<open>t0\<close>, wait 0, 2000 and 4000 milliseconds and
  start at \<open>t0\<close>, \<open>t0 + 2000\<close> and \<open>t0 + 4000\<close>; the first does not sleep at all.
\<close>

theorem three_simultaneous_calls:
  assumes "delayMs this = 2000" and "jitterMs this = 0" and "nextAvailableTime st \<le> t0"
  shows "map waitTime (fst (processInputs this
            [(A, \<lparr>Date_now = t0, Math_random = rA\<rparr>),
             (B, \<lparr>Date_now = t0, Math_random = rB\<rparr>),
             (C, \<lparr>Date_now = t0, Math_random = rC\<rparr>)] st)) = [0, 2000, 4000]
       \<and> map myStartTime (fst (processInputs this
            [(A, \<lparr>Date_now = t0, Math_random = rA\<rparr>),
             (B, \<lparr>Date_now = t0, Math_random = rB\<rparr>),
             (C, \<lparr>Date_now = t0, Math_random = rC\<rparr>)] st)) = [t0, t0 + 2000, t0 + 4000]
       \<and> map sleep (fst (processInputs this
            [(A, \<lparr>Date_now = t0, Math_random = rA\<rparr>),
             (B, \<lparr>Date_now = t0, Math_random = rB\<rparr>),
             (C, \<lparr>Date_now = t0, Math_random = rC\<rparr>)] st)) = [None, Some 2000, Some 4000]"
  using assms by (simp add: processInput_def getJitter_def Let_def max_def)

theorem three_simultaneous_calls_witness:
  "delayMs spaced_processor = 2000 \<and> jitterMs spaced_processor = 0
   \<and> nextAvailableTime initial_state \<le> 1000
   \<and> map waitTime (fst (processInputs spaced_processor
        [(\<lparr>messages = [''A'']\<rparr>, \<lparr>Date_now = 1000, Math_random = 1 / 2\<rparr>),
         (\<lparr>messages = [''B'']\<rparr>, \<lparr>Date_now = 1000, Math_random = 1 / 3\<rparr>),
         (\<lparr>messages = [''C'']\<rparr>, \<lparr>Date_now = 1000, Math_random = 1 / 4\<rparr>)] initial_state))
     = [0, 2000, 4000]
   \<and> map myStartTime (fst (processInputs spaced_processor
        [(\<lparr>messages = [''A'']\<rparr>, \<lparr>Date_now = 1000, Math_random = 1 / 2\<rparr>),
         (\<lparr>messages = [''B'']\<rparr>, \<lparr>Date_now = 1000, Math_random = 1 / 3\<rparr>),
         (\<lparr>messages = [''C'']\<rparr>, \<lparr>Date_now = 1000, Math_random = 1 / 4\<rparr>)] initial_state))
     = [1000, 3000, 5000]"
proof -
  have d: "delayMs spaced_processor = 2000" and j: "jitterMs spaced_processor = 0"
    by (simp_all add: spaced_processor_def)
  have c: "nextAvailableTime initial_state \<le> 1000"
    by (simp add: initial_state_def)
  from three_simultaneous_calls [OF d j c, of "\<lparr>messages = [''A'']\<rparr>" "1 / 2"
      "\<lparr>messages = [''B'']\<rparr>" "1 / 3" "\<lparr>messages = [''C'']\<rparr>" "1 / 4"] d j c
  show ?thesis
    by (simp del: processInputs.simps)
qed

subsection \<open>The cursor\<close>

text \<open>
  Claim C3 as stated (the cursor after any call is at least the cursor before it) fails
  for an instance built with a negative \<^verbatim>\<open>delayMs\<close>, which the constructor accepts:
  with \<^verbatim>\<open>delayMs = -1000\<close>, a call at time 5000 on a cursor at 5000 leaves the cursor
  at 4000.
\<close>

theorem cursor_rewound_counterexample:
  "constructor (Some \<lparr>opt_delayMs = Some (- 1000), opt_jitterMs = Some 0\<rparr>) =
     Normal \<lparr>id_field = ''example-input'', name_field = ''ExampleInputProcessor'',
             delayMs = - 1000, jitterMs = 0\<rparr>
   \<and> nextAvailableTime (snd (processInput
        \<lparr>id_field = ''example-input'', name_field = ''ExampleInputProcessor'',
          delayMs = - 1000, jitterMs = 0\<rparr>
        \<lparr>messages = [''hello'']\<rparr> \<lparr>Date_now = 5000, Math_random = 0\<rparr>
        \<lparr>nextAvailableTime = 5000\<rparr>)) = 4000
   \<and> \<not> (nextAvailableTime \<lparr>nextAvailableTime = 5000\<rparr>
        \<le> nextAvailableTime (snd (processInput
        \<lparr>id_field = ''example-input'', name_field = ''ExampleInputProcessor'',
          delayMs = - 1000, jitterMs = 0\<rparr>
        \<lparr>messages = [''hello'']\<rparr> \<lparr>Date_now = 5000, Math_random = 0\<rparr>
        \<lparr>nextAvailableTime = 5000\<rparr>)))"
  by (simp add: constructor_def nullish_def processInput_def getJitter_def Let_def)

text \<open>
  Claim C3, amended. For an instance whose \<^verbatim>\<open>delayMs\<close> is not negative, and a draw of
  \<^verbatim>\<open>Math.random()\<close> that is not negative, the cursor after a call of
  \<^verbatim>\<open>processInput\<close> is at least the cursor before it. The other write to the cursor is
  \<^verbatim>\<open>resetRateLimitTimestamp\<close>, which sets it to 0.
\<close>

theorem cursor_non_decreasing:
  assumes "0 \<le> delayMs this" and "0 \<le> Math_random env"
  shows "nextAvailableTime st \<le> nextAvailableTime (snd (processInput this args env st))
       \<and> nextAvailableTime (resetRateLimitTimestamp st) = 0"
proof -
  have "0 \<le> getJitter this (Math_random env)"
    using assms(2) by (rule getJitter_nonneg)
  with assms(1) show ?thesis
    by (simp add: processInput_def resetRateLimitTimestamp_def Let_def max_def)
qed

theorem cursor_non_decreasing_witness:
  "0 \<le> delayMs jittered_processor \<and> 0 \<le> Math_random \<lparr>Date_now = 1000, Math_random = 1 / 2\<rparr>
   \<and> nextAvailableTime \<lparr>nextAvailableTime = 5000\<rparr>
      \<le> nextAvailableTime (snd (processInput jittered_processor \<lparr>messages = [''hello'']\<rparr>
            \<lparr>Date_now = 1000, Math_random = 1 / 2\<rparr> \<lparr>nextAvailableTime = 5000\<rparr>))"
proof -
  have d: "0 \<le> delayMs jittered_processor"
    by (simp add: jittered_processor_def)
  have r: "0 \<le> Math_random \<lparr>Date_now = 1000, Math_random = 1 / 2\<rparr>"
    by simp
  from cursor_non_decreasing [OF d r] d r show ?thesis
    by blast
qed

text \<open>
  Claim C6 (reset). \<^verbatim>\<open>resetRateLimitTimestamp\<close> puts the cursor back to 0. The next call
  of \<^verbatim>\<open>processInput\<close>, at a time \<open>now\<close> that is not before the epoch (\<^verbatim>\<open>Date.now()\<close>
  counts milliseconds since the epoch) and with a draw of \<^verbatim>\<open>Math.random()\<close> in
  \<open>[0, 1)\<close>, starts at \<open>now\<close>, waits 0 and does not sleep, whatever the cursor was before
  the reset, so in particular when \<open>now\<close> is at least the old cursor; the new cursor is
  \<open>now + delayMs + jitter\<close>. With \<^verbatim>\<open>delayMs = 500\<close> and \<^verbatim>\<open>jitterMs = 100\<close> the new
  cursor lies in \<open>[now + 500, now + 600)\<close>.
\<close>

theorem reset_behavior:
  assumes "0 \<le> Date_now env" and "0 \<le> Math_random env" and "Math_random env < 1"
  shows "nextAvailableTime (resetRateLimitTimestamp st) = 0
       \<and> myStartTime (fst (processInput this args env (resetRateLimitTimestamp st))) = Date_now env
       \<and> waitTime (fst (processInput this args env (resetRateLimitTimestamp st))) = 0
       \<and> sleep (fst (processInput this args env (resetRateLimitTimestamp st))) = None
       \<and> nextAvailableTime (snd (processInput this args env (resetRateLimitTimestamp st))) =
           Date_now env + delayMs this + getJitter this (Math_random env)
       \<and> (delayMs this = 500 \<and> jitterMs this = 100 \<longrightarrow>
           Date_now env + 500 \<le>
             nextAvailableTime (snd (processInput this args env (resetRateLimitTimestamp st)))
           \<and> nextAvailableTime (snd (processInput this args env (resetRateLimitTimestamp st)))
             < Date_now env + 500 + 100)"
proof -
  have cursor: "nextAvailableTime (snd (processInput this args env (resetRateLimitTimestamp st))) =
      Date_now env + delayMs this + getJitter this (Math_random env)"
    using assms(1) by (simp add: processInput_def resetRateLimitTimestamp_def Let_def)
  have lower: "0 \<le> getJitter this (Math_random env)"
    using assms(2) by (rule getJitter_nonneg)
  have upper: "jitterMs this = 100 \<Longrightarrow> getJitter this (Math_random env) < 100"
    using getJitter_less [of this "Math_random env"] assms(3) by simp
  have locals: "myStartTime (fst (processInput this args env (resetRateLimitTimestamp st))) = Date_now env"
    "waitTime (fst (processInput this args env (resetRateLimitTimestamp st))) = 0"
    "sleep (fst (processInput this args env (resetRateLimitTimestamp st))) = None"
    using assms(1) by (simp_all add: processInput_def resetRateLimitTimestamp_def Let_def)
  have zero: "nextAvailableTime (resetRateLimitTimestamp st) = 0"
    by (simp add: resetRateLimitTimestamp_def)
  from cursor lower upper locals zero show ?thesis
    by auto
qed

theorem reset_behavior_witness:
  "0 \<le> Date_now \<lparr>Date_now = 9000, Math_random = 37 / 100\<rparr>
   \<and> 0 \<le> Math_random \<lparr>Date_now = 9000, Math_random = 37 / 100\<rparr>
   \<and> Math_random \<lparr>Date_now = 9000, Math_random = 37 / 100\<rparr> < 1
   \<and> delayMs jittered_processor = 500 \<and> jitterMs jittered_processor = 100
   \<and> waitTime (fst (processInput jittered_processor \<lparr>messages = [''hello'']\<rparr>
         \<lparr>Date_now = 9000, Math_random = 37 / 100\<rparr>
         (resetRateLimitTimestamp \<lparr>nextAvailableTime = 8000\<rparr>))) = 0
   \<and> myStartTime (fst (processInput jittered_processor \<lparr>messages = [''hello'']\<rparr>
         \<lparr>Date_now = 9000, Math_random = 37 / 100\<rparr>
         (resetRateLimitTimestamp \<lparr>nextAvailableTime = 8000\<rparr>))) = 9000
   \<and> nextAvailableTime (snd (processInput jittered_processor \<lparr>messages = [''hello'']\<rparr>
         \<lparr>Date_now = 9000, Math_random = 37 / 100\<rparr>
         (resetRateLimitTimestamp \<lparr>nextAvailableTime = 8000\<rparr>))) < 9600"
proof -
  have clock: "0 \<le> Date_now \<lparr>Date_now = 9000, Math_random = 37 / 100\<rparr>"
    and lower: "0 \<le> Math_random \<lparr>Date_now = 9000, Math_random = 37 / 100\<rparr>"
    and upper: "Math_random \<lparr>Date_now = 9000, Math_random = 37 / 100\<rparr> < 1"
    by simp_all
  have config: "delayMs jittered_processor = 500 \<and> jitterMs jittered_processor = 100"
    by (simp add: jittered_processor_def)
  from reset_behavior [OF clock lower upper, of "\<lparr>nextAvailableTime = 8000\<rparr>"
      jittered_processor "\<lparr>messages = [''hello'']\<rparr>"] config clock lower upper
  show ?thesis
    by simp
qed

subsection \<open>The wait of one call\<close>

text \<open>
  Claim C7 (waits are never negative, an idle caller waits zero). For every call the wait
  is \<open>max 0 (myStartTime - now)\<close>, which is not negative, and the call sleeps for exactly
  this wait when it is positive and not at all otherwise. A call made when the clock has
  reached the cursor waits 0, starts at once and does not sleep.
\<close>

theorem wait_never_negative:
  "waitTime (fst (processInput this args env st)) =
     max 0 (myStartTime (fst (processInput this args env st)) - now (fst (processInput this args env st)))
   \<and> now (fst (processInput this args env st)) = Date_now env
   \<and> 0 \<le> waitTime (fst (processInput this args env st))
   \<and> sleep (fst (processInput this args env st)) =
       (if 0 < waitTime (fst (processInput this args env st))
        then Some (waitTime (fst (processInput this args env st))) else None)
   \<and> (nextAvailableTime st \<le> Date_now env \<longrightarrow>
        waitTime (fst (processInput this args env st)) = 0
        \<and> sleep (fst (processInput this args env st)) = None
        \<and> myStartTime (fst (processInput this args env st)) = Date_now env)"
  by (simp add: processInput_def Let_def max_def)

theorem wait_never_negative_witness:
  "nextAvailableTime \<lparr>nextAvailableTime = 1500\<rparr>
     \<le> Date_now \<lparr>Date_now = 60000, Math_random = 1 / 2\<rparr>
   \<and> waitTime (fst (processInput jittered_processor \<lparr>messages = [''hello'']\<rparr>
         \<lparr>Date_now = 60000, Math_random = 1 / 2\<rparr> \<lparr>nextAvailableTime = 1500\<rparr>)) = 0
   \<and> sleep (fst (processInput jittered_processor \<lparr>messages = [''hello'']\<rparr>
         \<lparr>Date_now = 60000, Math_random = 1 / 2\<rparr> \<lparr>nextAvailableTime = 1500\<rparr>)) = None"
proof -
  have idle: "nextAvailableTime \<lparr>nextAvailableTime = 1500\<rparr>
     \<le> Date_now \<lparr>Date_now = 60000, Math_random = 1 / 2\<rparr>"
    by simp
  from wait_never_negative [of jittered_processor "\<lparr>messages = [''hello'']\<rparr>"
      "\<lparr>Date_now = 60000, Math_random = 1 / 2\<rparr>" "\<lparr>nextAvailableTime = 1500\<rparr>"] idle
  show ?thesis
    by blast
qed

subsection \<open>Construction\<close>

text \<open>
  Claim C4 as stated (a negative \<^verbatim>\<open>delayMs\<close> or \<^verbatim>\<open>jitterMs\<close> is rejected when the
  instance is constructed) fails: constructing with \<^verbatim>\<open>{ delayMs: -1, jitterMs: -1 }\<close>
  completes normally and yields an instance that holds both negative values.
\<close>

theorem negative_configuration_accepted_counterexample:
  "constructor (Some \<lparr>opt_delayMs = Some (- 1), opt_jitterMs = Some (- 1)\<rparr>) =
     Normal \<lparr>id_field = ''example-input'', name_field = ''ExampleInputProcessor'',
             delayMs = - 1, jitterMs = - 1\<rparr>"
  by (simp add: constructor_def nullish_def)

text \<open>
  Claim C4, amended. The constructor validates nothing: for every argument it completes
  normally, and options that give both values are stored as given, whatever their sign.
\<close>

theorem constructor_never_throws:
  "(\<exists>this. constructor arg = Normal this)
   \<and> constructor (Some \<lparr>opt_delayMs = Some d, opt_jitterMs = Some j\<rparr>) =
       Normal \<lparr>id_field = ''example-input'', name_field = ''ExampleInputProcessor'',
               delayMs = d, jitterMs = j\<rparr>"
  by (simp add: constructor_def nullish_def Let_def)

text \<open>
  Claim C8 (defaults). Constructing with no argument, or with an options object that
  gives neither value, yields \<^verbatim>\<open>delayMs = 500\<close> and \<^verbatim>\<open>jitterMs = 1000\<close>; an
  option that is omitted takes its default while the one that is given is kept. The
  defaults are not the values 2000 and 0 of the documentation comments.
\<close>

theorem configuration_defaults:
  "constructor None =
     Normal \<lparr>id_field = ''example-input'', name_field = ''ExampleInputProcessor'',
             delayMs = 500, jitterMs = 1000\<rparr>
   \<and> constructor (Some \<lparr>opt_delayMs = None, opt_jitterMs = None\<rparr>) = constructor None
   \<and> constructor (Some \<lparr>opt_delayMs = Some d, opt_jitterMs = None\<rparr>) =
     Normal \<lparr>id_field = ''example-input'', name_field = ''ExampleInputProcessor'',
             delayMs = d, jitterMs = 1000\<rparr>
   \<and> constructor (Some \<lparr>opt_delayMs = None, opt_jitterMs = Some j\<rparr>) =
     Normal \<lparr>id_field = ''example-input'', name_field = ''ExampleInputProcessor'',
             delayMs = 500, jitterMs = j\<rparr>
   \<and> constructor None \<noteq>
     Normal \<lparr>id_field = ''example-input'', name_field = ''ExampleInputProcessor'',
             delayMs = 2000, jitterMs = 0\<rparr>"
  by (simp add: constructor_def nullish_def)

subsection \<open>The jitter\<close>



text \<open>
  Claim C10 (a non-positive \<^verbatim>\<open>jitterMs\<close> disables the jitter). For an instance whose
  \<^verbatim>\<open>jitterMs\<close> is zero or negative, \<^verbatim>\<open>getJitter\<close> returns exactly 0 whatever is
  drawn, and the effective delay of a call is \<^verbatim>\<open>delayMs\<close> alone.
\<close>

theorem non_positive_jitter_disabled:
  assumes "jitterMs this \<le> 0"
  shows "getJitter this random = 0
       \<and> effectiveDelay (fst (processInput this args env st)) = delayMs this"
  using assms by (simp add: processInput_def getJitter_def Let_def)

theorem non_positive_jitter_disabled_witness:
  "jitterMs \<lparr>id_field = ''example-input'', name_field = ''ExampleInputProcessor'',
             delayMs = 500, jitterMs = - 250\<rparr> \<le> 0
   \<and> constructor (Some \<lparr>opt_delayMs = None, opt_jitterMs = Some (- 250)\<rparr>) =
       Normal \<lparr>id_field = ''example-input'', name_field = ''ExampleInputProcessor'',
               delayMs = 500, jitterMs = - 250\<rparr>
   \<and> getJitter \<lparr>id_field = ''example-input'', name_field = ''ExampleInputProcessor'',
               delayMs = 500, jitterMs = - 250\<rparr> (9 / 10) = 0
   \<and> effectiveDelay (fst (processInput
         \<lparr>id_field = ''example-input'', name_field = ''ExampleInputProcessor'',
           delayMs = 500, jitterMs = - 250\<rparr>
         \<lparr>messages = [''hello'']\<rparr> \<lparr>Date_now = 1000, Math_random = 9 / 10\<rparr>
         initial_state)) = 500"
proof -
  have negative: "jitterMs \<lparr>id_field = ''example-input'', name_field = ''ExampleInputProcessor'',
             delayMs = 500, jitterMs = - 250\<rparr> \<le> 0"
    by simp
  have built: "constructor (Some \<lparr>opt_delayMs = None, opt_jitterMs = Some (- 250)\<rparr>) =
       Normal \<lparr>id_field = ''example-input'', name_field = ''ExampleInputProcessor'',
               delayMs = 500, jitterMs = - 250\<rparr>"
    by (simp add: constructor_def nullish_def)
  from non_positive_jitter_disabled [OF negative, of "9 / 10" "\<lparr>messages = [''hello'']\<rparr>"
      "\<lparr>Date_now = 1000, Math_random = 9 / 10\<rparr>" initial_state] negative built
  show ?thesis
    by simp
qed

subsection \<open>What a call changes\<close>




end
